theory Spec2Isabelle
  imports Main "HOL-Library.Sublist"
begin

section \<open>Strings\<close>

text \<open>
  A Python \<open>str\<close> is a sequence of Unicode code points, and \<open>len\<close> counts code points.
  The form fields are therefore lists of code points; \<open>ascii\<close> writes a literal.
  The messages of the program are ASCII literals and stay HOL strings.
\<close>

type_synonym str = "nat list"

definition ascii :: "string \<Rightarrow> str" where
  "ascii s = map of_char s"

text \<open>
  \<open>str.isdigit\<close> of CPython: true when the string is not empty and every character has
  the Unicode property Numeric\_Type Digit or Decimal. The ranges are those of the
  Unicode character database 14.0.0 (CPython 3.11); the first one is the ASCII digits.
\<close>

definition digit_ranges :: "(nat \<times> nat) list" where
  "digit_ranges =
    [(48, 57), (178, 179), (185, 185), (1632, 1641), (1776, 1785), (1984, 1993),
     (2406, 2415), (2534, 2543), (2662, 2671), (2790, 2799), (2918, 2927), (3046, 3055),
     (3174, 3183), (3302, 3311), (3430, 3439), (3558, 3567), (3664, 3673), (3792, 3801),
     (3872, 3881), (4160, 4169), (4240, 4249), (4969, 4977), (6112, 6121), (6160, 6169),
     (6470, 6479), (6608, 6618), (6784, 6793), (6800, 6809), (6992, 7001), (7088, 7097),
     (7232, 7241), (7248, 7257), (8304, 8304), (8308, 8313), (8320, 8329), (9312, 9320),
     (9332, 9340), (9352, 9360), (9450, 9450), (9461, 9469), (9471, 9471), (10102, 10110),
     (10112, 10120), (10122, 10130), (42528, 42537), (43216, 43225), (43264, 43273),
     (43472, 43481), (43504, 43513), (43600, 43609), (44016, 44025), (65296, 65305),
     (66720, 66729), (68160, 68163), (68912, 68921), (69216, 69224), (69714, 69722),
     (69734, 69743), (69872, 69881), (69942, 69951), (70096, 70105), (70384, 70393),
     (70736, 70745), (70864, 70873), (71248, 71257), (71360, 71369), (71472, 71481),
     (71904, 71913), (72016, 72025), (72784, 72793), (73040, 73049), (73120, 73129),
     (92768, 92777), (92864, 92873), (93008, 93017), (120782, 120831), (123200, 123209),
     (123632, 123641), (125264, 125273), (127232, 127242), (130032, 130041)]"

definition isdigit_char :: "nat \<Rightarrow> bool" where
  "isdigit_char c = list_ex (\<lambda>(lo, hi). lo \<le> c \<and> c \<le> hi) digit_ranges"

definition isdigit :: "str \<Rightarrow> bool" where
  "isdigit s = (s \<noteq> [] \<and> list_all isdigit_char s)"

definition ascii_digit :: "nat \<Rightarrow> bool" where
  "ascii_digit c = (48 \<le> c \<and> c \<le> 57)"

section \<open>The entries table\<close>

text \<open>
  A row of the table \<open>entries\<close> as \<open>fetchone\<close> returns it: a tuple of ten columns in the
  order of \<open>CREATE TABLE\<close>. The columns declared without \<open>NOT NULL\<close> may hold \<open>NULL\<close>
  (Python's \<open>None\<close>).
\<close>

record row =
  col_sr_no :: int
  col_associate_id :: str
  col_date :: str
  col_name :: str
  col_mobile :: str
  col_height :: "str option"
  col_age :: "int option"
  col_email :: "str option"
  col_adhaar :: "str option"
  col_dob :: "str option"

text \<open>
  The dictionary \<open>data\<close> that the view builds from its widgets: \<open>IntVar.get\<close> gives an
  integer, \<open>StringVar.get\<close> a string.
\<close>

record entry_data =
  sr_no :: int
  associate_id :: str
  date :: str
  name :: str
  mobile :: str
  height :: str
  age :: int
  email :: str
  adhaar :: str
  dob :: str

text \<open>The ten parameters bound by the \<open>INSERT\<close> statement, as the row they make.\<close>

definition row_of :: "entry_data \<Rightarrow> row" where
  "row_of data =
     \<lparr>col_sr_no = sr_no data, col_associate_id = associate_id data, col_date = date data,
      col_name = name data, col_mobile = mobile data, col_height = Some (height data),
      col_age = Some (age data), col_email = Some (email data),
      col_adhaar = Some (adhaar data), col_dob = Some (dob data)\<rparr>"

text \<open>The nine columns assigned by \<open>UPDATE entries SET ...\<close>; \<open>sr_no\<close> is not among them.\<close>

definition set_columns :: "entry_data \<Rightarrow> row \<Rightarrow> row" where
  "set_columns data r =
     r\<lparr>col_associate_id := associate_id data, col_date := date data, col_name := name data,
       col_mobile := mobile data, col_height := Some (height data),
       col_age := Some (age data), col_email := Some (email data),
       col_adhaar := Some (adhaar data), col_dob := Some (dob data)\<rparr>"

text \<open>
  The connection: the rows of the table, and the faults of the storage layer that are
  still to come (disk full, I/O error, locked file). Each write statement takes the
  next flag; \<open>True\<close> makes it fail with \<open>sqlite3.OperationalError\<close>. An empty list is a
  healthy store. Reads are modelled on a healthy store. A fault is raised by the
  statement itself, before it writes; an error raised by \<open>commit\<close> after the statement
  has written is not modelled.
\<close>

record database =
  table :: "row list"
  pending_faults :: "bool list"

datatype sqlite_error = IntegrityError | OperationalError

definition take_fault :: "database \<Rightarrow> bool \<times> database" where
  "take_fault db =
     (case pending_faults db of
        [] \<Rightarrow> (False, db)
      | f # fs \<Rightarrow> (f, db\<lparr>pending_faults := fs\<rparr>))"

text \<open>The schema: \<open>sr_no INTEGER PRIMARY KEY\<close> and \<open>associate_id TEXT UNIQUE NOT NULL\<close>.\<close>

definition table_ok :: "row list \<Rightarrow> bool" where
  "table_ok t = (distinct (map col_sr_no t) \<and> distinct (map col_associate_id t))"

subsection \<open>The five statements\<close>

definition select_max_sr_no :: "row list \<Rightarrow> int option" where
  "select_max_sr_no t =
     (case map col_sr_no t of [] \<Rightarrow> None | k # ks \<Rightarrow> Some (fold max ks k))"

definition select_all_order_by_sr_no :: "row list \<Rightarrow> row list" where
  "select_all_order_by_sr_no t = sort_key col_sr_no t"

definition select_by_sr_no :: "row list \<Rightarrow> int \<Rightarrow> row option" where
  "select_by_sr_no t k = find (\<lambda>r. col_sr_no r = k) t"

definition select_by_associate_id :: "row list \<Rightarrow> str \<Rightarrow> row option" where
  "select_by_associate_id t a = find (\<lambda>r. col_associate_id r = a) t"

definition execute_insert :: "database \<Rightarrow> row \<Rightarrow> (sqlite_error + unit) \<times> database" where
  "execute_insert db r =
     (let (fault, db1) = take_fault db in
      if fault then (Inl OperationalError, db1)
      else if list_ex (\<lambda>x. col_sr_no x = col_sr_no r) (table db1)
              \<or> list_ex (\<lambda>x. col_associate_id x = col_associate_id r) (table db1)
      then (Inl IntegrityError, db1)
      else (Inr (), db1\<lparr>table := table db1 @ [r]\<rparr>))"

definition execute_update :: "database \<Rightarrow> entry_data \<Rightarrow> (sqlite_error + unit) \<times> database" where
  "execute_update db data =
     (let (fault, db1) = take_fault db in
      if fault then (Inl OperationalError, db1)
      else if list_ex (\<lambda>x. col_sr_no x = sr_no data) (table db1)
              \<and> list_ex (\<lambda>x. col_sr_no x \<noteq> sr_no data \<and> col_associate_id x = associate_id data)
                   (table db1)
      then (Inl IntegrityError, db1)
      else (Inr (), db1\<lparr>table :=
              map (\<lambda>x. if col_sr_no x = sr_no data then set_columns data x else x) (table db1)\<rparr>))"

definition execute_delete :: "database \<Rightarrow> int \<Rightarrow> (sqlite_error + unit) \<times> database" where
  "execute_delete db k =
     (let (fault, db1) = take_fault db in
      if fault then (Inl OperationalError, db1)
      else (Inr (), db1\<lparr>table := filter (\<lambda>x. col_sr_no x \<noteq> k) (table db1)\<rparr>))"

section \<open>EntryFormLogic\<close>

definition get_next_sr_no :: "database \<Rightarrow> int" where
  "get_next_sr_no db =
     (case select_max_sr_no (table db) of None \<Rightarrow> 1 | Some result \<Rightarrow> result + 1)"

definition get_all_entries :: "database \<Rightarrow> row list" where
  "get_all_entries db = select_all_order_by_sr_no (table db)"

definition get_entry_by_sr_no :: "database \<Rightarrow> int \<Rightarrow> row option" where
  "get_entry_by_sr_no db k = select_by_sr_no (table db) k"

definition validate_form :: "database \<Rightarrow> entry_data \<Rightarrow> bool \<Rightarrow> string list" where
  "validate_form db data updating =
     (let error_messages = [];
          error_messages =
            (if associate_id data = []
             then error_messages @ [''Associate I.D. No. is required.'']
             else error_messages);
          error_messages =
            (if name data = []
             then error_messages @ [''Name is required.'']
             else error_messages);
          error_messages =
            (if mobile data = []
             then error_messages @ [''Mobile number is required.'']
             else if length (mobile data) \<noteq> 10 \<or> \<not> isdigit (mobile data)
             then error_messages @ [''Mobile number must be exactly 10 digits.'']
             else error_messages);
          error_messages =
            (if age data \<noteq> 0 \<and> (age data < 0 \<or> age data > 120)
             then error_messages @ [''Please enter a valid age between 0 and 120.'']
             else error_messages);
          error_messages =
            (if email data \<noteq> [] \<and> of_char CHR ''@'' \<notin> set (email data)
             then error_messages @ [''Please enter a valid email address.'']
             else error_messages);
          error_messages =
            (if adhaar data \<noteq> [] \<and> (length (adhaar data) \<noteq> 12 \<or> \<not> isdigit (adhaar data))
             then error_messages @ [''Adhaar Card No. must be exactly 12 digits.'']
             else error_messages);
          existing_entry = select_by_associate_id (table db) (associate_id data);
          error_messages =
            (case existing_entry of
               None \<Rightarrow> error_messages
             | Some e \<Rightarrow>
                 if \<not> updating \<or> col_sr_no e \<noteq> sr_no data
                 then error_messages @ [''Duplicate Associate I.D. No. found.'']
                 else error_messages);
          error_messages =
            (if \<not> updating
             then (case select_by_sr_no (table db) (sr_no data) of
                     None \<Rightarrow> error_messages
                   | Some _ \<Rightarrow> error_messages @ [''Duplicate Sr. No. found.''])
             else error_messages)
      in error_messages)"

text \<open>
  The three writes. \<open>except sqlite3.Error\<close> catches every error of the statement and of
  the commit; the method then returns \<open>False\<close>. The log is not part of the state.
\<close>

definition save_entry :: "database \<Rightarrow> entry_data \<Rightarrow> bool \<times> database" where
  "save_entry db data =
     (case execute_insert db (row_of data) of
        (Inr _, db') \<Rightarrow> (True, db')
      | (Inl e, db') \<Rightarrow> (False, db'))"

definition update_entry :: "database \<Rightarrow> entry_data \<Rightarrow> bool \<times> database" where
  "update_entry db data =
     (case execute_update db data of
        (Inr _, db') \<Rightarrow> (True, db')
      | (Inl e, db') \<Rightarrow> (False, db'))"

definition delete_entry :: "database \<Rightarrow> int \<Rightarrow> bool \<times> database" where
  "delete_entry db k =
     (case execute_delete db k of
        (Inr _, db') \<Rightarrow> (True, db')
      | (Inl e, db') \<Rightarrow> (False, db'))"

text \<open>Whether the storage layer fails the next write statement.\<close>

definition storage_fault :: "database \<Rightarrow> bool" where
  "storage_fault db = fst (take_fault db)"

section \<open>EntryFormView\<close>

text \<open>
  The widget variables (\<open>IntVar\<close> for the serial number and the age, \<open>StringVar\<close> for
  the rest), the five buttons whose state the view configures, and the message boxes
  shown so far. The cursor \<open>current_entry_index\<close> is \<open>None\<close> or an index that the
  program never makes negative.
\<close>

record form_vars =
  sr_no_var :: int
  date_var :: str
  associate_id_var :: str
  name_var :: str
  mobile_var :: str
  height_var :: str
  age_var :: int
  email_var :: str
  adhaar_var :: str
  dob_var :: str

datatype button_state = Normal | Disabled

datatype message = ShowInfo string string | ShowError string string


record view =
  logic :: database
  entries :: "row list"
  current_entry_index :: "nat option"
  vars :: form_vars
  prev_button :: button_state
  next_button :: button_state
  update_button :: button_state
  delete_button :: button_state
  submit_button :: button_state
  messages :: "message list"

definition load_entry :: "row \<Rightarrow> view \<Rightarrow> view" where
  "load_entry entry v =
     v\<lparr>vars :=
        \<lparr>sr_no_var = col_sr_no entry,
         date_var = col_date entry,
         associate_id_var = col_associate_id entry,
         name_var = col_name entry,
         mobile_var = col_mobile entry,
         height_var = (case col_height entry of Some x \<Rightarrow> x | None \<Rightarrow> []),
         age_var = (case col_age entry of Some x \<Rightarrow> x | None \<Rightarrow> 0),
         email_var = (case col_email entry of Some x \<Rightarrow> x | None \<Rightarrow> []),
         adhaar_var = (case col_adhaar entry of Some x \<Rightarrow> x | None \<Rightarrow> []),
         dob_var = (case col_dob entry of Some x \<Rightarrow> x | None \<Rightarrow> [])\<rparr>\<rparr>"

definition set_navigation_buttons_state :: "view \<Rightarrow> view" where
  "set_navigation_buttons_state v =
     (case current_entry_index v of
        None \<Rightarrow>
          v\<lparr>prev_button := (if entries v = [] then Disabled else Normal),
            next_button := (if entries v = [] then Disabled else Normal),
            update_button := Disabled,
            delete_button := Disabled,
            submit_button := Normal\<rparr>
      | Some i \<Rightarrow>
          v\<lparr>prev_button := (if i = 0 then Disabled else Normal),
            next_button := (if int i = int (length (entries v)) - 1 then Disabled else Normal),
            update_button := Normal,
            delete_button := Normal,
            submit_button := Disabled\<rparr>)"

definition show_message :: "message \<Rightarrow> view \<Rightarrow> view" where
  "show_message m v = v\<lparr>messages := messages v @ [m]\<rparr>"

definition next_entry :: "view \<Rightarrow> view" where
  "next_entry v =
     (case current_entry_index v of
        Some i \<Rightarrow>
          if entries v \<noteq> [] then
            if int i < int (length (entries v)) - 1
            then set_navigation_buttons_state
                   (load_entry (entries v ! (i + 1)) (v\<lparr>current_entry_index := Some (i + 1)\<rparr>))
            else show_message (ShowInfo ''Information'' ''This is the last entry.'') v
          else show_message (ShowInfo ''Information'' ''No entries available.'') v
      | None \<Rightarrow> show_message (ShowInfo ''Information'' ''No entries available.'') v)"

definition prev_entry :: "view \<Rightarrow> view" where
  "prev_entry v =
     (case current_entry_index v of
        Some i \<Rightarrow>
          if entries v \<noteq> [] then
            if i > 0
            then set_navigation_buttons_state
                   (load_entry (entries v ! (i - 1)) (v\<lparr>current_entry_index := Some (i - 1)\<rparr>))
            else show_message (ShowInfo ''Information'' ''This is the first entry.'') v
          else show_message (ShowInfo ''Information'' ''No entries available.'') v
      | None \<Rightarrow> show_message (ShowInfo ''Information'' ''No entries available.'') v)"

text \<open>\<open>today\<close> is \<open>datetime.date.today().strftime("%Y-%m-%d")\<close>.\<close>

definition reset_form :: "str \<Rightarrow> view \<Rightarrow> view" where
  "reset_form today v =
     set_navigation_buttons_state
       (v\<lparr>vars :=
           \<lparr>sr_no_var = get_next_sr_no (logic v), date_var = today, associate_id_var = [],
            name_var = [], mobile_var = [], height_var = [], age_var = 0, email_var = [],
            adhaar_var = [], dob_var = []\<rparr>,
          entries := get_all_entries (logic v),
          current_entry_index := None\<rparr>)"

definition add_new_entry :: "str \<Rightarrow> view \<Rightarrow> view" where
  "add_new_entry today v = set_navigation_buttons_state (reset_form today v)"


text \<open>
  \<open>EntryFormView.__init__\<close> once the widgets exist: the variables are blank, the buttons
  enabled, and the first entry is loaded when there is one.
\<close>

definition init_view :: "str \<Rightarrow> database \<Rightarrow> view" where
  "init_view today db =
     (let v0 = \<lparr>logic = db, entries = get_all_entries db, current_entry_index = None,
                vars = \<lparr>sr_no_var = 0, date_var = [], associate_id_var = [], name_var = [],
                        mobile_var = [], height_var = [], age_var = 0, email_var = [],
                        adhaar_var = [], dob_var = []\<rparr>,
                prev_button = Normal, next_button = Normal, update_button = Normal,
                delete_button = Normal, submit_button = Normal, messages = []\<rparr>;
          v1 = (if entries v0 \<noteq> []
                then load_entry (entries v0 ! 0) (v0\<lparr>current_entry_index := Some 0\<rparr>)
                else reset_form today v0)
      in set_navigation_buttons_state v1)"

text \<open>
  The state the view keeps while it shows an entry: the cached list is what the store
  holds, the cursor is inside it, and the read-only serial number field shows the
  serial number of the entry under the cursor.
\<close>

definition browse_inv :: "view \<Rightarrow> nat \<Rightarrow> bool" where
  "browse_inv v i =
     (current_entry_index v = Some i \<and> i < length (entries v)
      \<and> entries v = get_all_entries (logic v)
      \<and> sr_no_var (vars v) = col_sr_no (entries v ! i))"

section \<open>Sample states\<close>

text \<open>Concrete entries and stores on which the theorems below are instantiated.\<close>

definition sample_data :: "int \<Rightarrow> string \<Rightarrow> entry_data" where
  "sample_data k a =
     \<lparr>sr_no = k, associate_id = ascii a, date = ascii ''2024-01-01'', name = ascii ''Asha'',
      mobile = ascii ''1234567890'', height = [], age = 0, email = [], adhaar = [],
      dob = []\<rparr>"

definition sample_db :: "(int \<times> string) list \<Rightarrow> database" where
  "sample_db ks =
     \<lparr>table = map (\<lambda>(k, a). row_of (sample_data k a)) ks, pending_faults = []\<rparr>"

text \<open>Ten digits that are not ASCII: ARABIC-INDIC DIGIT ZERO to NINE, U+0660 to U+0669.\<close>

definition arabic_indic_digits :: str where
  "arabic_indic_digits = [1632, 1633, 1634, 1635, 1636, 1637, 1638, 1639, 1640, 1641]"

section \<open>The next serial number\<close>

lemma select_max_sr_no_Max:
  "t \<noteq> [] \<Longrightarrow> select_max_sr_no t = Some (Max (col_sr_no ` set t))"
  by (cases t) (simp_all add: select_max_sr_no_def Max.set_eq_fold [symmetric])

text \<open>
  Claim C3. \<open>get_next_sr_no\<close> returns 1 on an empty table and otherwise the largest
  serial number plus 1. The result is above every serial number present, so a gap below
  the maximum is never filled: with the serial numbers 1, 3 and 4 it is 5, not 2.
\<close>

theorem get_next_sr_no_max_plus_one:
  "(table db = [] \<longrightarrow> get_next_sr_no db = 1)
   \<and> (table db \<noteq> [] \<longrightarrow>
        get_next_sr_no db = Max (col_sr_no ` set (table db)) + 1
        \<and> (\<forall>r \<in> set (table db). col_sr_no r < get_next_sr_no db))
   \<and> (col_sr_no ` set (table db) = {1, 3, 4} \<longrightarrow> get_next_sr_no db = 5)"
proof (cases "table db = []")
  case True
  then show ?thesis by (simp add: get_next_sr_no_def select_max_sr_no_def)
next
  case False
  then have m: "get_next_sr_no db = Max (col_sr_no ` set (table db)) + 1"
    by (simp add: get_next_sr_no_def select_max_sr_no_Max)
  have "\<forall>r \<in> set (table db). col_sr_no r \<le> Max (col_sr_no ` set (table db))"
    by simp
  with m have above: "\<forall>r \<in> set (table db). col_sr_no r < get_next_sr_no db"
    by fastforce
  have "col_sr_no ` set (table db) = {1, 3, 4} \<longrightarrow> get_next_sr_no db = 5"
    using m by simp
  with m above False show ?thesis by simp
qed

text \<open>
  The store after creating the entries 1 to 4 and deleting entry 2 holds the serial
  numbers 1, 3 and 4; the next serial number is 5.
\<close>

theorem get_next_sr_no_max_plus_one_witness:
  "get_next_sr_no (sample_db []) = 1
   \<and> table (snd (delete_entry (sample_db [(1, ''A''), (2, ''B''), (3, ''C''), (4, ''D'')]) 2)) \<noteq> []
   \<and> col_sr_no ` set (table (snd (delete_entry
          (sample_db [(1, ''A''), (2, ''B''), (3, ''C''), (4, ''D'')]) 2))) = {1, 3, 4}
   \<and> get_next_sr_no (snd (delete_entry
          (sample_db [(1, ''A''), (2, ''B''), (3, ''C''), (4, ''D'')]) 2)) = 5"
proof -
  let ?db = "snd (delete_entry (sample_db [(1, ''A''), (2, ''B''), (3, ''C''), (4, ''D'')]) 2)"
  have t: "map col_sr_no (table ?db) = [1, 3, 4]"
    by (simp add: delete_entry_def execute_delete_def take_fault_def sample_db_def
        sample_data_def row_of_def)
  have ne: "table ?db \<noteq> []"
    using t by auto
  have s: "col_sr_no ` set (table ?db) = {1, 3, 4}"
    using t by (metis list.set_map list.simps(15) empty_set)
  have e: "table (sample_db []) = []"
    by (simp add: sample_db_def)
  show ?thesis
    using get_next_sr_no_max_plus_one [of "sample_db []"]
      get_next_sr_no_max_plus_one [of ?db] e ne s
    by simp
qed

section \<open>Validation\<close>

text \<open>Each step of \<open>validate_form\<close> appends at most one message to the list so far.\<close>

lemma append_if: "(if c then xs @ [m] else xs) = xs @ (if c then [m] else [])"
  by simp

lemma append_elif:
  "(if a then xs @ [m] else if b then xs @ [m'] else xs) =
     xs @ (if a then [m] else []) @ (if \<not> a \<and> b then [m'] else [])"
  by simp

lemma append_elif':
  "(if a then xs @ [m] else xs @ (if b then [m'] else [])) =
     xs @ (if a then [m] else []) @ (if \<not> a \<and> b then [m'] else [])"
  by simp

lemma append_case_if:
  "(case opt of None \<Rightarrow> xs | Some e \<Rightarrow> if P e then xs @ [m] else xs) =
     xs @ (if (\<exists>e. opt = Some e \<and> P e) then [m] else [])"
  by (cases opt) simp_all

lemma append_case_if':
  "(case opt of None \<Rightarrow> xs | Some e \<Rightarrow> xs @ (if P e then [m] else [])) =
     xs @ (if (\<exists>e. opt = Some e \<and> P e) then [m] else [])"
  by (cases opt) simp_all

lemma append_if_case:
  "(if c then (case opt of None \<Rightarrow> xs | Some e \<Rightarrow> xs @ [m]) else xs) =
     xs @ (if c \<and> opt \<noteq> None then [m] else [])"
  by (cases opt) simp_all

lemma collect_Cons:
  "map snd (filter fst ((c, m) # rest)) = (if c then [m] else []) @ map snd (filter fst rest)"
  by simp

lemma collect_Nil: "map snd (filter fst []) = []"
  by simp

lemma validate_form_collects_all:
  "validate_form db data updating =
     map snd (filter fst
       [(associate_id data = [], ''Associate I.D. No. is required.''),
        (name data = [], ''Name is required.''),
        (mobile data = [], ''Mobile number is required.''),
        (mobile data \<noteq> [] \<and> (length (mobile data) \<noteq> 10 \<or> \<not> isdigit (mobile data)),
           ''Mobile number must be exactly 10 digits.''),
        (age data \<noteq> 0 \<and> (age data < 0 \<or> age data > 120),
           ''Please enter a valid age between 0 and 120.''),
        (email data \<noteq> [] \<and> of_char CHR ''@'' \<notin> set (email data),
           ''Please enter a valid email address.''),
        (adhaar data \<noteq> [] \<and> (length (adhaar data) \<noteq> 12 \<or> \<not> isdigit (adhaar data)),
           ''Adhaar Card No. must be exactly 12 digits.''),
        (\<exists>e. select_by_associate_id (table db) (associate_id data) = Some e
              \<and> (\<not> updating \<or> col_sr_no e \<noteq> sr_no data),
           ''Duplicate Associate I.D. No. found.''),
        (\<not> updating \<and> select_by_sr_no (table db) (sr_no data) \<noteq> None,
           ''Duplicate Sr. No. found.'')])"
  unfolding validate_form_def
  apply (simp only: Let_def append_elif append_elif' append_if append_case_if append_case_if'
      append_if_case collect_Cons collect_Nil)
  apply (simp only: append_assoc append_Nil append_Nil2)
  done

lemma mem_collect: "m \<in> set (map snd (filter fst L)) \<longleftrightarrow> (True, m) \<in> set L"
  by force

lemma collect_empty: "map snd (filter fst L) = [] \<longleftrightarrow> (\<forall>m. (True, m) \<notin> set L)"
  by (induction L) auto

lemma mobile_format_mem:
  "(''Mobile number must be exactly 10 digits.'' \<in> set (validate_form db data updating)) =
     (mobile data \<noteq> [] \<and> (length (mobile data) \<noteq> 10 \<or> \<not> isdigit (mobile data)))"
  unfolding validate_form_collects_all mem_collect by simp


lemma mobile_required_mem:
  "(''Mobile number is required.'' \<in> set (validate_form db data updating)) =
     (mobile data = [])"
  unfolding validate_form_collects_all mem_collect by simp

lemma duplicate_associate_id_mem:
  "(''Duplicate Associate I.D. No. found.'' \<in> set (validate_form db data updating)) =
     (\<exists>e. select_by_associate_id (table db) (associate_id data) = Some e
              \<and> (\<not> updating \<or> col_sr_no e \<noteq> sr_no data))"
  unfolding validate_form_collects_all mem_collect by simp

lemma isdigit_char_ascii: "c < 128 \<Longrightarrow> isdigit_char c = ascii_digit c"
  unfolding isdigit_char_def digit_ranges_def ascii_digit_def
  by simp

lemma list_all_isdigit_ascii:
  "list_all (\<lambda>c. c < 128) s \<Longrightarrow> list_all isdigit_char s = list_all ascii_digit s"
  by (induction s) (simp_all add: isdigit_char_ascii)


text \<open>
  Claim C5. \<open>validate_form\<close> returns, for every input, exactly the messages whose
  condition holds, in one fixed order: associate id, name, mobile (missing or malformed),
  age, email, adhaar, duplicate associate id and, on creation only, duplicate serial
  number. Nothing stops at the first failure.
\<close>

theorem validate_form_all_errors_in_order:
  "validate_form db data updating =
     map snd (filter fst
       [(associate_id data = [], ''Associate I.D. No. is required.''),
        (name data = [], ''Name is required.''),
        (mobile data = [], ''Mobile number is required.''),
        (mobile data \<noteq> [] \<and> (length (mobile data) \<noteq> 10 \<or> \<not> isdigit (mobile data)),
           ''Mobile number must be exactly 10 digits.''),
        (age data \<noteq> 0 \<and> (age data < 0 \<or> age data > 120),
           ''Please enter a valid age between 0 and 120.''),
        (email data \<noteq> [] \<and> of_char CHR ''@'' \<notin> set (email data),
           ''Please enter a valid email address.''),
        (adhaar data \<noteq> [] \<and> (length (adhaar data) \<noteq> 12 \<or> \<not> isdigit (adhaar data)),
           ''Adhaar Card No. must be exactly 12 digits.''),
        (\<exists>e. select_by_associate_id (table db) (associate_id data) = Some e
              \<and> (\<not> updating \<or> col_sr_no e \<noteq> sr_no data),
           ''Duplicate Associate I.D. No. found.''),
        (\<not> updating \<and> select_by_sr_no (table db) (sr_no data) \<noteq> None,
           ''Duplicate Sr. No. found.'')])"
  by (rule validate_form_collects_all)

lemma isdigit_samples:
  "isdigit (ascii ''1234567890'')" "\<not> isdigit (ascii ''12345abcde'')"
  "isdigit (ascii ''12345'')" "isdigit (ascii ''123456789012'')"
  "isdigit arabic_indic_digits"
  by (simp_all add: isdigit_def isdigit_char_def digit_ranges_def ascii_def arabic_indic_digits_def)

text \<open>An entry with seven errors at once.\<close>

theorem validate_form_all_errors_in_order_witness:
  "validate_form (sample_db [(7, ''A7'')])
     \<lparr>sr_no = 7, associate_id = [], date = ascii ''2024-01-01'', name = [],
      mobile = ascii ''12345'', height = [], age = 121, email = ascii ''nobody'',
      adhaar = ascii ''12'', dob = []\<rparr> False =
   [''Associate I.D. No. is required.'', ''Name is required.'',
    ''Mobile number must be exactly 10 digits.'',
    ''Please enter a valid age between 0 and 120.'',
    ''Please enter a valid email address.'',
    ''Adhaar Card No. must be exactly 12 digits.'',
    ''Duplicate Sr. No. found.'']"
  unfolding validate_form_all_errors_in_order [of "sample_db [(7, ''A7'')]" _ False]
  by (simp add: sample_db_def sample_data_def row_of_def select_by_associate_id_def
      select_by_sr_no_def ascii_def)

text \<open>
  Claim C4, amended. The mobile-format error is reported exactly when the mobile field
  is not empty and is not a string of exactly 10 characters that \<open>str.isdigit\<close> accepts:
  the ASCII digits and the other Unicode digits. On a field of ASCII characters this is:
  not empty and not exactly 10 ASCII digits. \<open>12345\<close> and \<open>12345abcde\<close> fail,
  \<open>1234567890\<close> passes, and an empty mobile gives the missing-mobile error instead.
\<close>

theorem mobile_format_error_iff:
  "((''Mobile number must be exactly 10 digits.'' \<in> set (validate_form db data updating)) =
      (mobile data \<noteq> [] \<and> \<not> (length (mobile data) = 10 \<and> list_all isdigit_char (mobile data))))
   \<and> ((''Mobile number is required.'' \<in> set (validate_form db data updating)) =
      (mobile data = []))
   \<and> (list_all (\<lambda>c. c < 128) (mobile data) \<longrightarrow>
        (''Mobile number must be exactly 10 digits.'' \<in> set (validate_form db data updating)) =
          (mobile data \<noteq> [] \<and> \<not> (length (mobile data) = 10 \<and> list_all ascii_digit (mobile data))))
   \<and> ''Mobile number must be exactly 10 digits.''
         \<in> set (validate_form db (data\<lparr>mobile := ascii ''12345''\<rparr>) updating)
   \<and> ''Mobile number must be exactly 10 digits.''
         \<in> set (validate_form db (data\<lparr>mobile := ascii ''12345abcde''\<rparr>) updating)
   \<and> ''Mobile number must be exactly 10 digits.''
         \<notin> set (validate_form db (data\<lparr>mobile := ascii ''1234567890''\<rparr>) updating)
   \<and> ''Mobile number is required.''
         \<notin> set (validate_form db (data\<lparr>mobile := ascii ''1234567890''\<rparr>) updating)"
proof -
  have a: "(''Mobile number must be exactly 10 digits.'' \<in> set (validate_form db data updating)) =
      (mobile data \<noteq> [] \<and> \<not> (length (mobile data) = 10 \<and> list_all isdigit_char (mobile data)))"
    unfolding mobile_format_mem isdigit_def by auto
  have b: "list_all (\<lambda>c. c < 128) (mobile data) \<longrightarrow>
        (''Mobile number must be exactly 10 digits.'' \<in> set (validate_form db data updating)) =
          (mobile data \<noteq> [] \<and> \<not> (length (mobile data) = 10 \<and> list_all ascii_digit (mobile data)))"
    using a list_all_isdigit_ascii [of "mobile data"] by simp
  have c: "''Mobile number must be exactly 10 digits.''
         \<in> set (validate_form db (data\<lparr>mobile := ascii ''12345''\<rparr>) updating)"
    unfolding mobile_format_mem by (simp add: ascii_def)
  have d: "''Mobile number must be exactly 10 digits.''
         \<in> set (validate_form db (data\<lparr>mobile := ascii ''12345abcde''\<rparr>) updating)"
    unfolding mobile_format_mem using isdigit_samples(2) by (simp add: ascii_def)
  have e: "''Mobile number must be exactly 10 digits.''
         \<notin> set (validate_form db (data\<lparr>mobile := ascii ''1234567890''\<rparr>) updating)"
    unfolding mobile_format_mem using isdigit_samples(1) by (simp add: ascii_def)
  have f: "''Mobile number is required.''
         \<notin> set (validate_form db (data\<lparr>mobile := ascii ''1234567890''\<rparr>) updating)"
    unfolding mobile_required_mem by (simp add: ascii_def)
  show ?thesis
    using a b c d e f mobile_required_mem [of db data updating] by blast
qed

theorem mobile_format_error_iff_witness:
  "list_all (\<lambda>c. c < 128) (mobile ((sample_data 1 ''A1'')\<lparr>mobile := ascii ''98765x4321''\<rparr>))
   \<and> ''Mobile number must be exactly 10 digits.''
        \<in> set (validate_form (sample_db []) ((sample_data 1 ''A1'')\<lparr>mobile := ascii ''98765x4321''\<rparr>) False)
   \<and> ''Mobile number must be exactly 10 digits.''
        \<notin> set (validate_form (sample_db []) ((sample_data 1 ''A1'')\<lparr>mobile := arabic_indic_digits\<rparr>) False)"
proof -
  have h: "list_all (\<lambda>c. c < 128) (mobile ((sample_data 1 ''A1'')\<lparr>mobile := ascii ''98765x4321''\<rparr>))"
    by (simp add: ascii_def)
  have g: "\<not> list_all ascii_digit (ascii ''98765x4321'')"
    by (simp add: ascii_def ascii_digit_def)
  have k: "list_all isdigit_char arabic_indic_digits" "length arabic_indic_digits = 10"
    using isdigit_samples(5) by (simp_all add: isdigit_def arabic_indic_digits_def)
  have w1: "''Mobile number must be exactly 10 digits.''
        \<in> set (validate_form (sample_db []) ((sample_data 1 ''A1'')\<lparr>mobile := ascii ''98765x4321''\<rparr>) False)"
    using mobile_format_error_iff [of "sample_db []"
        "(sample_data 1 ''A1'')\<lparr>mobile := ascii ''98765x4321''\<rparr>" False,
        THEN conjunct2, THEN conjunct2, THEN conjunct1] h g
    by (simp add: ascii_def)
  have w2: "''Mobile number must be exactly 10 digits.''
        \<notin> set (validate_form (sample_db []) ((sample_data 1 ''A1'')\<lparr>mobile := arabic_indic_digits\<rparr>) False)"
    using mobile_format_error_iff [of "sample_db []"
        "(sample_data 1 ''A1'')\<lparr>mobile := arabic_indic_digits\<rparr>" False, THEN conjunct1] k
    by simp
  show ?thesis
    using h w1 w2 by blast
qed

text \<open>
  Claim C4 as stated fails: ten Arabic-Indic digits are not empty and are not ten ASCII
  digits, and no mobile-format error is reported.
\<close>

theorem mobile_ascii_digits_counterexample:
  "\<not> ((''Mobile number must be exactly 10 digits.''
         \<in> set (validate_form (sample_db []) ((sample_data 1 ''A1'')\<lparr>mobile := arabic_indic_digits\<rparr>) False)) =
       (mobile ((sample_data 1 ''A1'')\<lparr>mobile := arabic_indic_digits\<rparr>) \<noteq> []
        \<and> \<not> (length (mobile ((sample_data 1 ''A1'')\<lparr>mobile := arabic_indic_digits\<rparr>)) = 10
             \<and> list_all ascii_digit (mobile ((sample_data 1 ''A1'')\<lparr>mobile := arabic_indic_digits\<rparr>)))))"
proof -
  have "''Mobile number must be exactly 10 digits.''
         \<notin> set (validate_form (sample_db []) ((sample_data 1 ''A1'')\<lparr>mobile := arabic_indic_digits\<rparr>) False)"
    unfolding mobile_format_mem using isdigit_samples(5)
    by (simp add: arabic_indic_digits_def)
  moreover have "\<not> list_all ascii_digit arabic_indic_digits" "arabic_indic_digits \<noteq> []"
    by (simp_all add: arabic_indic_digits_def ascii_digit_def)
  ultimately show ?thesis by simp
qed

section \<open>Duplicate checks\<close>

lemma find_unique:
  "distinct (map f t) \<Longrightarrow> r \<in> set t \<Longrightarrow> find (\<lambda>x. f x = f r) t = Some r"
proof (induction t)
  case Nil
  then show ?case by simp
next
  case (Cons x t)
  then show ?case by (cases "f x = f r") (auto simp: image_iff)
qed

text \<open>
  Claim C2. The duplicate check on the associate id leaves out the record being updated,
  found by its serial number: on the data of a stored entry (same serial number, same
  associate id) an update reports no duplicate associate id, and a creation whose
  associate id is that of any stored row reports one. An update that takes the associate
  id of another row reports one as well.
\<close>

theorem duplicate_associate_id_excludes_self:
  "(table_ok (table db) \<and> r \<in> set (table db) \<and> sr_no data = col_sr_no r
      \<and> associate_id data = col_associate_id r \<longrightarrow>
      ''Duplicate Associate I.D. No. found.'' \<notin> set (validate_form db data True))
   \<and> ((\<exists>x \<in> set (table db). col_associate_id x = associate_id data) \<longrightarrow>
      ''Duplicate Associate I.D. No. found.'' \<in> set (validate_form db data False))
   \<and> (table_ok (table db) \<and> r \<in> set (table db) \<and> sr_no data \<noteq> col_sr_no r
      \<and> associate_id data = col_associate_id r \<longrightarrow>
      ''Duplicate Associate I.D. No. found.'' \<in> set (validate_form db data True))"
proof -
  have own: "select_by_associate_id (table db) (col_associate_id r) = Some r"
    if "table_ok (table db)" "r \<in> set (table db)"
    using that by (simp add: select_by_associate_id_def table_ok_def find_unique)
  have found: "\<exists>e. select_by_associate_id (table db) (associate_id data) = Some e"
    if "\<exists>x \<in> set (table db). col_associate_id x = associate_id data"
    using that by (cases "select_by_associate_id (table db) (associate_id data)")
      (auto simp: select_by_associate_id_def find_None_iff)
  show ?thesis
    unfolding duplicate_associate_id_mem using own found by auto
qed

theorem duplicate_associate_id_excludes_self_witness:
  "table_ok (table (sample_db [(1, ''A1''), (2, ''A2'')]))
   \<and> row_of (sample_data 2 ''A2'') \<in> set (table (sample_db [(1, ''A1''), (2, ''A2'')]))
   \<and> ''Duplicate Associate I.D. No. found.''
        \<notin> set (validate_form (sample_db [(1, ''A1''), (2, ''A2'')]) (sample_data 2 ''A2'') True)
   \<and> ''Duplicate Associate I.D. No. found.''
        \<in> set (validate_form (sample_db [(1, ''A1''), (2, ''A2'')]) (sample_data 3 ''A2'') False)
   \<and> ''Duplicate Associate I.D. No. found.''
        \<in> set (validate_form (sample_db [(1, ''A1''), (2, ''A2'')]) (sample_data 1 ''A2'') True)"
proof -
  let ?db = "sample_db [(1, ''A1''), (2, ''A2'')]"
  let ?r = "row_of (sample_data 2 ''A2'')"
  have ok: "table_ok (table ?db)"
    by (simp add: table_ok_def sample_db_def sample_data_def row_of_def ascii_def)
  have mem: "?r \<in> set (table ?db)"
    by (simp add: sample_db_def)
  have ex: "\<exists>x \<in> set (table ?db). col_associate_id x = associate_id (sample_data 3 ''A2'')"
    by (simp add: sample_db_def sample_data_def row_of_def)
  have w1: "''Duplicate Associate I.D. No. found.'' \<notin> set (validate_form ?db (sample_data 2 ''A2'') True)"
    using duplicate_associate_id_excludes_self [of ?db ?r "sample_data 2 ''A2''", THEN conjunct1] ok mem
    by (simp add: sample_data_def row_of_def)
  have w2: "''Duplicate Associate I.D. No. found.'' \<in> set (validate_form ?db (sample_data 3 ''A2'') False)"
    using duplicate_associate_id_excludes_self [of ?db ?r "sample_data 3 ''A2''", THEN conjunct2, THEN conjunct1] ex
    by blast
  have w3: "''Duplicate Associate I.D. No. found.'' \<in> set (validate_form ?db (sample_data 1 ''A2'') True)"
    using duplicate_associate_id_excludes_self [of ?db ?r "sample_data 1 ''A2''", THEN conjunct2, THEN conjunct2] ok mem
    by (simp add: sample_data_def row_of_def)
  show ?thesis using ok mem w1 w2 w3 by blast
qed

section \<open>The three writes\<close>

lemma take_fault_table: "table (snd (take_fault db)) = table db"
  by (simp add: take_fault_def split: list.splits)

lemma take_fault_pending: "pending_faults (snd (take_fault db)) = drop 1 (pending_faults db)"
  by (simp add: take_fault_def split: list.splits)

lemma take_fault_cases:
  obtains f db1 where "take_fault db = (f, db1)" and "table db1 = table db"
    and "storage_fault db = f"
  using take_fault_table [of db] by (cases "take_fault db") (simp add: storage_fault_def)

lemma save_entry_result:
  "save_entry db data =
     (if storage_fault db
         \<or> list_ex (\<lambda>x. col_sr_no x = sr_no data) (table db)
         \<or> list_ex (\<lambda>x. col_associate_id x = associate_id data) (table db)
      then (False, snd (take_fault db))
      else (True, (snd (take_fault db))\<lparr>table := table db @ [row_of data]\<rparr>))"
proof -
  obtain f db1 where t: "take_fault db = (f, db1)" "table db1 = table db" "storage_fault db = f"
    by (rule take_fault_cases)
  show ?thesis
    by (simp add: save_entry_def execute_insert_def t row_of_def)
qed

lemma update_entry_result:
  "update_entry db data =
     (if storage_fault db
         \<or> (list_ex (\<lambda>x. col_sr_no x = sr_no data) (table db)
            \<and> list_ex (\<lambda>x. col_sr_no x \<noteq> sr_no data \<and> col_associate_id x = associate_id data)
                 (table db))
      then (False, snd (take_fault db))
      else (True, (snd (take_fault db))\<lparr>table :=
              map (\<lambda>x. if col_sr_no x = sr_no data then set_columns data x else x) (table db)\<rparr>))"
proof -
  obtain f db1 where t: "take_fault db = (f, db1)" "table db1 = table db" "storage_fault db = f"
    by (rule take_fault_cases)
  show ?thesis
    by (simp add: update_entry_def execute_update_def t)
qed

lemma delete_entry_result:
  "delete_entry db k =
     (if storage_fault db then (False, snd (take_fault db))
      else (True, (snd (take_fault db))\<lparr>table := filter (\<lambda>x. col_sr_no x \<noteq> k) (table db)\<rparr>))"
proof -
  obtain f db1 where t: "take_fault db = (f, db1)" "table db1 = table db" "storage_fault db = f"
    by (rule take_fault_cases)
  show ?thesis
    by (simp add: delete_entry_def execute_delete_def t)
qed

lemma find_append:
  "find P (xs @ ys) = (case find P xs of None \<Rightarrow> find P ys | Some x \<Rightarrow> Some x)"
  by (induction xs) simp_all

lemma duplicate_sr_no_mem:
  "(''Duplicate Sr. No. found.'' \<in> set (validate_form db data updating)) =
     (\<not> updating \<and> select_by_sr_no (table db) (sr_no data) \<noteq> None)"
  unfolding validate_form_collects_all mem_collect by simp

lemma validate_form_empty:
  assumes "validate_form db data False = []"
  shows "select_by_associate_id (table db) (associate_id data) = None"
    and "select_by_sr_no (table db) (sr_no data) = None"
proof -
  have "''Duplicate Associate I.D. No. found.'' \<notin> set (validate_form db data False)"
    using assms by simp
  then show "select_by_associate_id (table db) (associate_id data) = None"
    unfolding duplicate_associate_id_mem by simp
  have "''Duplicate Sr. No. found.'' \<notin> set (validate_form db data False)"
    using assms by simp
  then show "select_by_sr_no (table db) (sr_no data) = None"
    unfolding duplicate_sr_no_mem by simp
qed

text \<open>
  Claim C1. For an entry that passes the validation of a creation, on a store that does
  not fail the statement, \<open>save_entry\<close> succeeds and \<open>get_entry_by_sr_no\<close> then returns a
  row equal to the entry in each of the ten fields.
\<close>

theorem create_then_get_returns_entry:
  assumes "validate_form db data False = []" and "\<not> storage_fault db"
  shows "fst (save_entry db data)
    \<and> (\<exists>r. get_entry_by_sr_no (snd (save_entry db data)) (sr_no data) = Some r
         \<and> col_sr_no r = sr_no data \<and> col_associate_id r = associate_id data
         \<and> col_date r = date data \<and> col_name r = name data \<and> col_mobile r = mobile data
         \<and> col_height r = Some (height data) \<and> col_age r = Some (age data)
         \<and> col_email r = Some (email data) \<and> col_adhaar r = Some (adhaar data)
         \<and> col_dob r = Some (dob data))"
proof -
  have a: "\<not> list_ex (\<lambda>x. col_associate_id x = associate_id data) (table db)"
    using validate_form_empty(1) [OF assms(1)]
    by (simp add: select_by_associate_id_def find_None_iff list_ex_iff)
  have b: "\<not> list_ex (\<lambda>x. col_sr_no x = sr_no data) (table db)"
    using validate_form_empty(2) [OF assms(1)]
    by (simp add: select_by_sr_no_def find_None_iff list_ex_iff)
  have s: "save_entry db data = (True, (snd (take_fault db))\<lparr>table := table db @ [row_of data]\<rparr>)"
    using a b assms(2) by (simp add: save_entry_result)
  have g: "get_entry_by_sr_no (snd (save_entry db data)) (sr_no data) = Some (row_of data)"
    using validate_form_empty(2) [OF assms(1)]
    by (simp add: s get_entry_by_sr_no_def select_by_sr_no_def find_append row_of_def)
  show ?thesis
    using s g by (simp add: row_of_def)
qed

lemma sample_data_valid:
  "validate_form (sample_db [(1, ''A1'')]) (sample_data 2 ''A2'') False = []"
  unfolding validate_form_collects_all using isdigit_samples(1)
  by (simp add: sample_db_def sample_data_def row_of_def select_by_associate_id_def
      select_by_sr_no_def ascii_def)

lemma sample_db_healthy: "\<not> storage_fault (sample_db ks)"
  by (simp add: storage_fault_def take_fault_def sample_db_def)

theorem create_then_get_returns_entry_witness:
  "validate_form (sample_db [(1, ''A1'')]) (sample_data 2 ''A2'') False = []
   \<and> \<not> storage_fault (sample_db [(1, ''A1'')])
   \<and> fst (save_entry (sample_db [(1, ''A1'')]) (sample_data 2 ''A2''))
   \<and> (\<exists>r. get_entry_by_sr_no (snd (save_entry (sample_db [(1, ''A1'')]) (sample_data 2 ''A2'')))
              2 = Some r
          \<and> col_associate_id r = ascii ''A2'' \<and> col_mobile r = ascii ''1234567890''
          \<and> col_age r = Some 0)"
  using create_then_get_returns_entry [OF sample_data_valid sample_db_healthy]
    sample_data_valid sample_db_healthy [of "[(1, ''A1'')]"]
  by (auto simp add: sample_data_def)

lemma take_fault_eq:
  "take_fault db = (storage_fault db, db\<lparr>pending_faults := drop 1 (pending_faults db)\<rparr>)"
  by (cases db) (simp add: take_fault_def storage_fault_def split: list.splits)

text \<open>
  Claim C6. \<open>save_entry\<close>, \<open>update_entry\<close> and \<open>delete_entry\<close> always return a boolean:
  \<open>False\<close> exactly when the statement raised an error of the storage layer (a fault, or
  a violated constraint), with the table left as it was, and \<open>True\<close> otherwise. Each call
  runs its statement once: it takes one flag of the pending faults, whatever the outcome.
\<close>

theorem write_errors_return_False:
  "save_entry db data =
     (if storage_fault db
         \<or> list_ex (\<lambda>x. col_sr_no x = sr_no data) (table db)
         \<or> list_ex (\<lambda>x. col_associate_id x = associate_id data) (table db)
      then (False, db\<lparr>pending_faults := drop 1 (pending_faults db)\<rparr>)
      else (True, db\<lparr>pending_faults := drop 1 (pending_faults db),
                     table := table db @ [row_of data]\<rparr>))
   \<and> update_entry db data =
     (if storage_fault db
         \<or> (list_ex (\<lambda>x. col_sr_no x = sr_no data) (table db)
            \<and> list_ex (\<lambda>x. col_sr_no x \<noteq> sr_no data \<and> col_associate_id x = associate_id data)
                 (table db))
      then (False, db\<lparr>pending_faults := drop 1 (pending_faults db)\<rparr>)
      else (True, db\<lparr>pending_faults := drop 1 (pending_faults db),
                     table := map (\<lambda>x. if col_sr_no x = sr_no data then set_columns data x else x)
                                (table db)\<rparr>))
   \<and> delete_entry db k =
     (if storage_fault db
      then (False, db\<lparr>pending_faults := drop 1 (pending_faults db)\<rparr>)
      else (True, db\<lparr>pending_faults := drop 1 (pending_faults db),
                     table := filter (\<lambda>x. col_sr_no x \<noteq> k) (table db)\<rparr>))
   \<and> fst (save_entry db data) = (\<not> isl (fst (execute_insert db (row_of data))))
   \<and> fst (update_entry db data) = (\<not> isl (fst (execute_update db data)))
   \<and> fst (delete_entry db k) = (\<not> isl (fst (execute_delete db k)))"
proof (intro conjI)
  show "fst (save_entry db data) = (\<not> isl (fst (execute_insert db (row_of data))))"
    by (simp add: save_entry_def split: prod.splits sum.splits)
  show "fst (update_entry db data) = (\<not> isl (fst (execute_update db data)))"
    by (simp add: update_entry_def split: prod.splits sum.splits)
  show "fst (delete_entry db k) = (\<not> isl (fst (execute_delete db k)))"
    by (simp add: delete_entry_def split: prod.splits sum.splits)
qed (simp_all add: save_entry_result update_entry_result delete_entry_result take_fault_eq)

text \<open>
  A fault followed by a healthy statement: the call returns \<open>False\<close> and leaves the second
  flag untouched, so nothing was tried again.
\<close>

theorem write_errors_return_False_witness:
  "save_entry ((sample_db [])\<lparr>pending_faults := [True, False]\<rparr>) (sample_data 1 ''A1'') =
     (False, (sample_db [])\<lparr>pending_faults := [False]\<rparr>)
   \<and> \<not> fst (save_entry (sample_db [(1, ''A1'')]) (sample_data 2 ''A1''))
   \<and> \<not> fst (update_entry (sample_db [(1, ''A1''), (2, ''A2'')]) (sample_data 2 ''A1''))
   \<and> fst (update_entry (sample_db [(1, ''A1''), (2, ''A2'')]) (sample_data 2 ''A3''))
   \<and> fst (delete_entry (sample_db [(1, ''A1'')]) 1)
   \<and> \<not> fst (delete_entry ((sample_db [(1, ''A1'')])\<lparr>pending_faults := [True]\<rparr>) 1)"
proof -
  have f: "storage_fault ((sample_db ks)\<lparr>pending_faults := True # fs\<rparr>)" for ks fs
    by (simp add: storage_fault_def take_fault_def)
  have a: "ascii ''A1'' \<noteq> ascii ''A2''" "ascii ''A1'' \<noteq> ascii ''A3''"
    "ascii ''A2'' \<noteq> ascii ''A3''"
    by (simp_all add: ascii_def)
  have c1: "save_entry ((sample_db [])\<lparr>pending_faults := [True, False]\<rparr>) (sample_data 1 ''A1'') =
     (False, (sample_db [])\<lparr>pending_faults := [False]\<rparr>)"
    using write_errors_return_False [of "(sample_db [])\<lparr>pending_faults := [True, False]\<rparr>"
      "sample_data 1 ''A1''" 0, THEN conjunct1] f
    by simp
  have c4: "\<not> fst (save_entry (sample_db [(1, ''A1'')]) (sample_data 2 ''A1''))"
    using write_errors_return_False [of "sample_db [(1, ''A1'')]" "sample_data 2 ''A1''" 1,
        THEN conjunct1]
    by (simp add: sample_db_def sample_data_def row_of_def)
  have c5: "\<not> fst (update_entry (sample_db [(1, ''A1''), (2, ''A2'')]) (sample_data 2 ''A1''))"
    using write_errors_return_False [of "sample_db [(1, ''A1''), (2, ''A2'')]"
      "sample_data 2 ''A1''" 0, THEN conjunct2, THEN conjunct1]
    by (simp add: sample_db_def sample_data_def row_of_def)
  have c6: "fst (update_entry (sample_db [(1, ''A1''), (2, ''A2'')]) (sample_data 2 ''A3''))"
    using write_errors_return_False [of "sample_db [(1, ''A1''), (2, ''A2'')]"
      "sample_data 2 ''A3''" 0, THEN conjunct2, THEN conjunct1] a
      sample_db_healthy [of "[(1, ''A1''), (2, ''A2'')]"]
    by (simp add: sample_db_def sample_data_def row_of_def)
  have c7: "fst (delete_entry (sample_db [(1, ''A1'')]) 1)"
    using write_errors_return_False [of "sample_db [(1, ''A1'')]" "sample_data 2 ''A1''" 1,
        THEN conjunct2, THEN conjunct2, THEN conjunct1]
      sample_db_healthy [of "[(1, ''A1'')]"]
    by simp
  have c8: "\<not> fst (delete_entry ((sample_db [(1, ''A1'')])\<lparr>pending_faults := [True]\<rparr>) 1)"
    using write_errors_return_False [of "(sample_db [(1, ''A1'')])\<lparr>pending_faults := [True]\<rparr>"
      "sample_data 1 ''A1''" 1, THEN conjunct2, THEN conjunct2, THEN conjunct1] f
    by simp
  show ?thesis
    using c1 c4 c5 c6 c7 c8 by blast
qed

text \<open>
  Claim C10. On a store that does not fail the statement, \<open>delete_entry\<close> with a serial
  number that no row has returns \<open>True\<close> and leaves the table as it was.
\<close>

theorem delete_absent_row_succeeds:
  assumes "\<not> storage_fault db" and "\<forall>r \<in> set (table db). col_sr_no r \<noteq> k"
  shows "fst (delete_entry db k) \<and> table (snd (delete_entry db k)) = table db
    \<and> get_entry_by_sr_no db k = None"
proof -
  have "filter (\<lambda>x. col_sr_no x \<noteq> k) (table db) = table db"
    using assms(2) by (simp add: filter_id_conv)
  moreover have "get_entry_by_sr_no db k = None"
    using assms(2) by (simp add: get_entry_by_sr_no_def select_by_sr_no_def find_None_iff)
  ultimately show ?thesis
    using assms(1) by (simp add: delete_entry_result take_fault_table)
qed

theorem delete_absent_row_succeeds_witness:
  "\<not> storage_fault (sample_db [(1, ''A1''), (3, ''A3'')])
   \<and> get_entry_by_sr_no (sample_db [(1, ''A1''), (3, ''A3'')]) 2 = None
   \<and> fst (delete_entry (sample_db [(1, ''A1''), (3, ''A3'')]) 2)
   \<and> table (snd (delete_entry (sample_db [(1, ''A1''), (3, ''A3'')]) 2)) =
       table (sample_db [(1, ''A1''), (3, ''A3'')])"
proof -
  have a: "\<forall>r \<in> set (table (sample_db [(1, ''A1''), (3, ''A3'')])). col_sr_no r \<noteq> 2"
    by (simp add: sample_db_def sample_data_def row_of_def)
  show ?thesis
    using delete_absent_row_succeeds [OF sample_db_healthy a] sample_db_healthy [of "[(1, ''A1''), (3, ''A3'')]"]
    by simp
qed

text \<open>
  Claim C9, amended. \<open>update_entry\<close> never changes the number of rows, the serial number
  of a row, or a row whose serial number is not that of the data. Whenever it returns
  \<open>True\<close>, the row with the serial number of the data has its nine other columns
  rewritten from the data.
\<close>

theorem update_entry_frame:
  "length (table (snd (update_entry db data))) = length (table db)
   \<and> (\<forall>i < length (table db).
        col_sr_no (table (snd (update_entry db data)) ! i) = col_sr_no (table db ! i)
        \<and> (col_sr_no (table db ! i) \<noteq> sr_no data \<longrightarrow>
             table (snd (update_entry db data)) ! i = table db ! i)
        \<and> (col_sr_no (table db ! i) = sr_no data \<and> fst (update_entry db data) \<longrightarrow>
             table (snd (update_entry db data)) ! i = set_columns data (table db ! i)
             \<and> col_associate_id (table (snd (update_entry db data)) ! i) = associate_id data
             \<and> col_date (table (snd (update_entry db data)) ! i) = date data
             \<and> col_name (table (snd (update_entry db data)) ! i) = name data
             \<and> col_mobile (table (snd (update_entry db data)) ! i) = mobile data
             \<and> col_height (table (snd (update_entry db data)) ! i) = Some (height data)
             \<and> col_age (table (snd (update_entry db data)) ! i) = Some (age data)
             \<and> col_email (table (snd (update_entry db data)) ! i) = Some (email data)
             \<and> col_adhaar (table (snd (update_entry db data)) ! i) = Some (adhaar data)
             \<and> col_dob (table (snd (update_entry db data)) ! i) = Some (dob data)))"
proof -
  have t: "table (snd (update_entry db data)) =
      (if fst (update_entry db data)
       then map (\<lambda>x. if col_sr_no x = sr_no data then set_columns data x else x) (table db)
       else table db)"
    by (simp add: update_entry_result take_fault_table)
  have l: "length (table (snd (update_entry db data))) = length (table db)"
    by (simp add: t)
  have r: "\<forall>i < length (table db).
        col_sr_no (table (snd (update_entry db data)) ! i) = col_sr_no (table db ! i)
        \<and> (col_sr_no (table db ! i) \<noteq> sr_no data \<longrightarrow>
             table (snd (update_entry db data)) ! i = table db ! i)
        \<and> (col_sr_no (table db ! i) = sr_no data \<and> fst (update_entry db data) \<longrightarrow>
             table (snd (update_entry db data)) ! i = set_columns data (table db ! i)
             \<and> col_associate_id (table (snd (update_entry db data)) ! i) = associate_id data
             \<and> col_date (table (snd (update_entry db data)) ! i) = date data
             \<and> col_name (table (snd (update_entry db data)) ! i) = name data
             \<and> col_mobile (table (snd (update_entry db data)) ! i) = mobile data
             \<and> col_height (table (snd (update_entry db data)) ! i) = Some (height data)
             \<and> col_age (table (snd (update_entry db data)) ! i) = Some (age data)
             \<and> col_email (table (snd (update_entry db data)) ! i) = Some (email data)
             \<and> col_adhaar (table (snd (update_entry db data)) ! i) = Some (adhaar data)
             \<and> col_dob (table (snd (update_entry db data)) ! i) = Some (dob data))"
    by (simp add: t set_columns_def)
  from l r show ?thesis
    by (intro conjI)
qed

theorem update_entry_frame_witness:
  "fst (update_entry (sample_db [(1, ''A1''), (2, ''A2'')])
          ((sample_data 2 ''A3'')\<lparr>name := ascii ''Bina'', age := 30\<rparr>))
   \<and> table (snd (update_entry (sample_db [(1, ''A1''), (2, ''A2'')])
          ((sample_data 2 ''A3'')\<lparr>name := ascii ''Bina'', age := 30\<rparr>))) ! 0 =
       row_of (sample_data 1 ''A1'')
   \<and> table (snd (update_entry (sample_db [(1, ''A1''), (2, ''A2'')])
          ((sample_data 2 ''A3'')\<lparr>name := ascii ''Bina'', age := 30\<rparr>))) ! 1 =
       row_of ((sample_data 2 ''A3'')\<lparr>name := ascii ''Bina'', age := 30\<rparr>)"
proof -
  let ?db = "sample_db [(1, ''A1''), (2, ''A2'')]"
  let ?d = "(sample_data 2 ''A3'')\<lparr>name := ascii ''Bina'', age := 30\<rparr>"
  note th = update_entry_frame [of ?db ?d]
  have a: "ascii ''A1'' \<noteq> ascii ''A3''"
    by (simp add: ascii_def)
  have ok: "fst (update_entry ?db ?d)"
    using a sample_db_healthy [of "[(1, ''A1''), (2, ''A2'')]"]
    by (simp add: update_entry_result sample_db_def sample_data_def row_of_def)
  have r0: "table (snd (update_entry ?db ?d)) ! 0 = row_of (sample_data 1 ''A1'')"
    using th [THEN conjunct2, THEN spec, of 0]
    by (simp add: sample_db_def sample_data_def row_of_def)
  have r1: "table (snd (update_entry ?db ?d)) ! 1 = row_of ?d"
    using th [THEN conjunct2, THEN spec, of 1] ok
    by (simp add: sample_db_def sample_data_def row_of_def set_columns_def)
  show ?thesis using ok r0 r1 by blast
qed

text \<open>
  Claim C9 as stated fails: an update of entry 2 that takes the associate id of entry 1
  violates the uniqueness constraint, returns \<open>False\<close> and rewrites nothing.
\<close>

theorem update_entry_rewrites_counterexample:
  "\<not> fst (update_entry (sample_db [(1, ''A1''), (2, ''A2'')]) (sample_data 2 ''A1''))
   \<and> get_entry_by_sr_no
        (snd (update_entry (sample_db [(1, ''A1''), (2, ''A2'')]) (sample_data 2 ''A1'')))
        (sr_no (sample_data 2 ''A1'')) = Some (row_of (sample_data 2 ''A2''))
   \<and> col_associate_id (row_of (sample_data 2 ''A2'')) \<noteq> associate_id (sample_data 2 ''A1'')"
  by (simp add: update_entry_result take_fault_table get_entry_by_sr_no_def select_by_sr_no_def
      sample_db_def sample_data_def row_of_def ascii_def)

section \<open>The view\<close>

lemma set_navigation_buttons_state_frame:
  "logic (set_navigation_buttons_state v) = logic v"
  "entries (set_navigation_buttons_state v) = entries v"
  "current_entry_index (set_navigation_buttons_state v) = current_entry_index v"
  "vars (set_navigation_buttons_state v) = vars v"
  "messages (set_navigation_buttons_state v) = messages v"
  by (simp_all add: set_navigation_buttons_state_def split: option.splits)

lemma set_navigation_buttons_state_buttons:
  "update_button (set_navigation_buttons_state v) =
     (if current_entry_index v = None then Disabled else Normal)"
  "delete_button (set_navigation_buttons_state v) =
     (if current_entry_index v = None then Disabled else Normal)"
  "submit_button (set_navigation_buttons_state v) =
     (if current_entry_index v = None then Normal else Disabled)"
  "current_entry_index v = None \<Longrightarrow>
     prev_button (set_navigation_buttons_state v) = (if entries v = [] then Disabled else Normal)"
  "current_entry_index v = None \<Longrightarrow>
     next_button (set_navigation_buttons_state v) = (if entries v = [] then Disabled else Normal)"
  by (simp_all add: set_navigation_buttons_state_def split: option.splits)

lemma load_entry_frame:
  "logic (load_entry e v) = logic v"
  "entries (load_entry e v) = entries v"
  "current_entry_index (load_entry e v) = current_entry_index v"
  "messages (load_entry e v) = messages v"
  "vars (load_entry e v) = vars (load_entry e w)"
  by (simp_all add: load_entry_def)

lemma reset_form_frame:
  "logic (reset_form today v) = logic v"
  "entries (reset_form today v) = get_all_entries (logic v)"
  "current_entry_index (reset_form today v) = None"
  "messages (reset_form today v) = messages v"
  "sr_no_var (vars (reset_form today v)) = get_next_sr_no (logic v)"
  by (simp_all add: reset_form_def set_navigation_buttons_state_frame)



lemma length_delete_index:
  "i < length xs \<Longrightarrow> length (take i xs @ drop (Suc i) xs) + 1 = length xs"
  by simp



lemma get_all_entries_Nil: "get_all_entries db = [] \<longleftrightarrow> table db = []"
  by (metis get_all_entries_def select_all_order_by_sr_no_def length_sort length_0_conv)

lemma init_view_browse_inv:
  assumes "table db \<noteq> []"
  shows "browse_inv (init_view today db) 0"
    and "logic (init_view today db) = db"
    and "entries (init_view today db) = get_all_entries db"
proof -
  have ne: "get_all_entries db \<noteq> []"
    using assms by (simp add: get_all_entries_Nil)
  then show "browse_inv (init_view today db) 0"
    by (simp add: browse_inv_def init_view_def Let_def set_navigation_buttons_state_frame
        load_entry_frame) (simp add: load_entry_def)
  show "logic (init_view today db) = db"
    using ne by (simp add: init_view_def Let_def set_navigation_buttons_state_frame
        load_entry_frame)
  show "entries (init_view today db) = get_all_entries db"
    using ne by (simp add: init_view_def Let_def set_navigation_buttons_state_frame
        load_entry_frame)
qed


text \<open>
  Claim C8. In Add mode with at least one entry, \<open>set_navigation_buttons_state\<close> enables
  Previous and Next, as the claim says. Invoking either one does not enter Browse mode:
  \<open>next_entry\<close> and \<open>prev_entry\<close> show \<open>No entries available.\<close>, and the cursor stays
  unset and the form as it was.
\<close>

theorem add_mode_navigation_stays:
  assumes "current_entry_index v = None" and "entries v \<noteq> []"
  shows "prev_button (set_navigation_buttons_state v) = Normal
    \<and> next_button (set_navigation_buttons_state v) = Normal
    \<and> next_entry v = show_message (ShowInfo ''Information'' ''No entries available.'') v
    \<and> prev_entry v = show_message (ShowInfo ''Information'' ''No entries available.'') v
    \<and> current_entry_index (next_entry v) = None
    \<and> current_entry_index (prev_entry v) = None
    \<and> vars (next_entry v) = vars v \<and> vars (prev_entry v) = vars v"
  using assms
  by (simp add: next_entry_def prev_entry_def show_message_def
      set_navigation_buttons_state_buttons)

text \<open>The view after Add New over a store with one entry.\<close>

theorem add_mode_navigation_stays_witness:
  "current_entry_index (add_new_entry (ascii ''2024-06-01'')
       (init_view (ascii ''2024-06-01'') (sample_db [(1, ''A1'')]))) = None
   \<and> entries (add_new_entry (ascii ''2024-06-01'')
       (init_view (ascii ''2024-06-01'') (sample_db [(1, ''A1'')]))) = [row_of (sample_data 1 ''A1'')]
   \<and> next_button (add_new_entry (ascii ''2024-06-01'')
       (init_view (ascii ''2024-06-01'') (sample_db [(1, ''A1'')]))) = Normal
   \<and> prev_button (add_new_entry (ascii ''2024-06-01'')
       (init_view (ascii ''2024-06-01'') (sample_db [(1, ''A1'')]))) = Normal
   \<and> current_entry_index (next_entry (add_new_entry (ascii ''2024-06-01'')
       (init_view (ascii ''2024-06-01'') (sample_db [(1, ''A1'')])))) = None
   \<and> current_entry_index (prev_entry (add_new_entry (ascii ''2024-06-01'')
       (init_view (ascii ''2024-06-01'') (sample_db [(1, ''A1'')])))) = None
   \<and> messages (next_entry (add_new_entry (ascii ''2024-06-01'')
       (init_view (ascii ''2024-06-01'') (sample_db [(1, ''A1'')])))) =
       [ShowInfo ''Information'' ''No entries available.'']"
proof -
  let ?T = "ascii ''2024-06-01''"
  let ?db = "sample_db [(1, ''A1'')]"
  let ?A = "add_new_entry ?T (init_view ?T ?db)"
  have t1: "table ?db \<noteq> []"
    by (simp add: sample_db_def)
  note iw = init_view_browse_inv [OF t1, of ?T]
  have c: "current_entry_index ?A = None"
    by (simp add: add_new_entry_def set_navigation_buttons_state_frame reset_form_frame)
  have e: "entries ?A = [row_of (sample_data 1 ''A1'')]"
    unfolding add_new_entry_def set_navigation_buttons_state_frame reset_form_frame iw(2)
    by (simp add: get_all_entries_def select_all_order_by_sr_no_def sample_db_def)
  then have ne: "entries ?A \<noteq> []" by simp
  have m: "messages ?A = []"
    using t1
    by (simp add: add_new_entry_def set_navigation_buttons_state_frame reset_form_frame
        init_view_def Let_def get_all_entries_Nil load_entry_frame)
  have idem: "set_navigation_buttons_state ?A = ?A"
    by (simp add: add_new_entry_def reset_form_def set_navigation_buttons_state_def)
  note th = add_mode_navigation_stays [OF c ne]
  have b: "next_button ?A = Normal" "prev_button ?A = Normal"
    using th idem by simp_all
  have n: "current_entry_index (next_entry ?A) = None"
    "current_entry_index (prev_entry ?A) = None"
    using th by blast+
  have "next_entry ?A = show_message (ShowInfo ''Information'' ''No entries available.'') ?A"
    using th by blast
  then have ms: "messages (next_entry ?A) = [ShowInfo ''Information'' ''No entries available.'']"
    using m by (simp add: show_message_def)
  show ?thesis
    using c e b n ms by blast
qed

end
